theory Spec2Isabelle
  imports Main
begin

section \<open>Data model (the three SQLAlchemy models of app.py)\<close>

text \<open>
  Points in time are seconds since the epoch, in UTC. Identifiers are strings; the
  application never sets one itself, every id column has the default
  \<^verbatim>\<open>str(uuid.uuid4())\<close>.
\<close>

type_synonym datetime = nat

record event =
  e_id :: string
  e_name :: string
  e_date :: datetime
  e_location :: string
  e_description :: "string option"
  e_created_at :: datetime

record participant =
  p_id :: string
  p_event_id :: string
  p_name :: string
  p_student_id :: string
  p_email :: string
  p_registration_date :: datetime

record attendance =
  a_id :: nat
  a_participant_id :: string
  a_event_id :: string
  a_check_in_time :: datetime

text \<open>
  One call of \<^verbatim>\<open>send_registration_email\<close>: its four arguments. The mock prints them,
  cutting the QR code to its first 100 characters.
\<close>

record mail =
  m_recipient_email :: string
  m_participant_name :: string
  m_event_name :: string
  m_qr_code_svg :: string

text \<open>
  Everything a request handler can read or change: the three tables (each in the order
  the database scans it, new rows at the end), the mock mail printed so far and the
  messages flashed to the session, each with its category.
\<close>

record world =
  events :: "event list"
  participants :: "participant list"
  attendances :: "attendance list"
  sent_mail :: "mail list"
  flashes :: "(string \<times> string) list"

section \<open>Responses\<close>

datatype jval = JStr string | JInt nat

datatype exn = NameError string | IntegrityError string | AttributeError string
  | InterfaceError string

text \<open>
  What a handler hands back to Flask: a JSON body with its status code, a redirect to a
  URL, a rendered template (its name and the \<^verbatim>\<open>qr_svg\<close> argument where there is
  one), an HTTP error raised by \<^verbatim>\<open>get_or_404\<close> or by a missing form key, or an
  exception nobody catches (Flask answers 500, and the session's uncommitted changes are
  lost).
\<close>

datatype response =
    Json nat "(string \<times> jval) list"
  | Redirect string
  | Render string "string option"
  | Abort nat
  | Uncaught exn

section \<open>Queries\<close>

text \<open>\<^verbatim>\<open>Event.query.get_or_404(event_id)\<close>: the row with that primary key, if any.\<close>

definition get_event :: "world \<Rightarrow> string \<Rightarrow> event option" where
  "get_event w event_id = find (\<lambda>e. e_id e = event_id) (events w)"

text \<open>\<^verbatim>\<open>Participant.query.get_or_404(participant_id)\<close>.\<close>

definition get_participant :: "world \<Rightarrow> string \<Rightarrow> participant option" where
  "get_participant w participant_id = find (\<lambda>p. p_id p = participant_id) (participants w)"

text \<open>\<^verbatim>\<open>Attendance.query.filter_by(event_id=...).count()\<close>.\<close>

definition count_attendances :: "world \<Rightarrow> string \<Rightarrow> nat" where
  "count_attendances w event_id = length (filter (\<lambda>a. a_event_id a = event_id) (attendances w))"

text \<open>\<^verbatim>\<open>flash(message, category)\<close>.\<close>

definition flash :: "string \<Rightarrow> string \<Rightarrow> world \<Rightarrow> world" where
  "flash message category w = w\<lparr>flashes := flashes w @ [(message, category)]\<rparr>"

text \<open>\<^verbatim>\<open>t.strftime("%H:%M")\<close>: hour and minute of the day, two digits each.\<close>

definition two_digits :: "nat \<Rightarrow> string" where
  "two_digits n = [''0123456789'' ! (n div 10 mod 10), ''0123456789'' ! (n mod 10)]"

definition strftime_HM :: "datetime \<Rightarrow> string" where
  "strftime_HM t = two_digits (t div 3600 mod 24) @ '':'' @ two_digits (t div 60 mod 60)"

section \<open>Check-in (api_checkin)\<close>

text \<open>
  The integer primary key SQLite gives a new Attendance row: one more than the largest
  in the table.
\<close>

definition next_attendance_id :: "attendance list \<Rightarrow> nat" where
  "next_attendance_id as = Suc (fold max (map a_id as) 0)"

text \<open>
  The handler from line 267 on, given what the two calls of \<^verbatim>\<open>data.get\<close> returned
  as text: \<open>None\<close> for an absent key, otherwise the string. The request as a whole,
  with a body of any JSON value, is \<open>api_checkin_request\<close> below.

  Lines 276, 283 and 289 of the handler read a variable \<^verbatim>\<open>event\<close>. The first argument
  says what that name denotes in the scope of the handler, \<open>None\<close> when it is bound
  nowhere, in which case Python raises NameError at the first read. Everything else
  follows the handler line by line. The insert of line 283 hits the UNIQUE constraint on
  \<^verbatim>\<open>attendance.participant_id\<close> when a row for the participant exists that the query
  of line 276 (which also filters on the event id) did not return.
\<close>

definition api_checkin_in_scope ::
  "event option \<Rightarrow> datetime \<Rightarrow> world \<Rightarrow> (string \<rightharpoonup> string) \<Rightarrow> world \<times> response" where
  "api_checkin_in_scope event_binding now w data =
    (let participant_id = data ''participant_id'';
         event_id = data ''event_id'' in
     if participant_id \<in> {None, Some []} \<or> event_id \<in> {None, Some []} then
       (w, Json 400 [(''status'', JStr ''error''),
                     (''message'', JStr ''Missing participant ID or event ID'')])
     else
       case find (\<lambda>p. Some (p_id p) = participant_id \<and> Some (p_event_id p) = event_id)
                 (participants w) of
         None \<Rightarrow>
           (w, Json 404 [(''status'', JStr ''error''),
                         (''message'', JStr ''Participant not found for this event'')])
       | Some participant \<Rightarrow>
           (case event_binding of
              None \<Rightarrow> (w, Uncaught (NameError ''event''))
            | Some event \<Rightarrow>
                (case find (\<lambda>a. a_participant_id a = p_id participant \<and> a_event_id a = e_id event)
                           (attendances w) of
                   Some existing_attendance \<Rightarrow>
                     (w, Json 200 [(''status'', JStr ''warning''),
                                   (''message'', JStr (p_name participant @ '' (ID: ''
                                      @ p_student_id participant @ '') already checked in at ''
                                      @ strftime_HM (a_check_in_time existing_attendance) @ ''.''))])
                 | None \<Rightarrow>
                     if p_id participant \<in> a_participant_id ` set (attendances w) then
                       (w, Uncaught (IntegrityError ''attendance.participant_id''))
                     else
                       (w\<lparr>attendances := attendances w @
                            [\<lparr>a_id = next_attendance_id (attendances w),
                              a_participant_id = p_id participant,
                              a_event_id = e_id event,
                              a_check_in_time = now\<rparr>]\<rparr>,
                        Json 200 [(''status'', JStr ''success''),
                                  (''message'', JStr (''Checked in '' @ p_name participant @ '' (''
                                     @ p_student_id participant @ '') for '' @ e_name event @ ''.'')),
                                  (''participant_name'', JStr (p_name participant)),
                                  (''student_id'', JStr (p_student_id participant))]))))"

text \<open>
  In app.py the name \<^verbatim>\<open>event\<close> is assigned neither in \<^verbatim>\<open>api_checkin\<close> (its local
  names are data, participant_id, event_id, participant, existing_attendance and
  new_attendance) nor at module level (the imports, app, db, the three model classes, the
  two helper functions and the route handlers), and it is no builtin.
\<close>

definition api_checkin :: "datetime \<Rightarrow> world \<Rightarrow> (string \<rightharpoonup> string) \<Rightarrow> world \<times> response" where
  "api_checkin = api_checkin_in_scope None"

section \<open>The check-in request (lines 263 to 268 of api_checkin)\<close>

text \<open>
  What \<^verbatim>\<open>request.get_json()\<close> returns: the parsed body as Python values, null as
  \<^verbatim>\<open>None\<close>, an object as a dict, given by its members in the order of the text.
  Numbers are the integral ones.
\<close>

datatype json =
    JNull
  | JBool bool
  | JNumber int
  | JString string
  | JArray "json list"
  | JObject "(string \<times> json) list"

text \<open>
  \<^verbatim>\<open>data.get(key)\<close> on a dict: Python keeps the last of several members with one key;
  \<open>None\<close> when the key is absent.
\<close>

definition dict_get :: "(string \<times> json) list \<Rightarrow> string \<Rightarrow> json option" where
  "dict_get members key = map_of (rev members) key"

text \<open>
  Python's \<^verbatim>\<open>not v\<close> for what \<^verbatim>\<open>data.get\<close> returned: true of None, False, 0, the
  empty string, the empty list and the empty dict.
\<close>

fun py_not :: "json option \<Rightarrow> bool" where
  "py_not None = True"
| "py_not (Some JNull) = True"
| "py_not (Some (JBool b)) = (b = False)"
| "py_not (Some (JNumber n)) = (n = 0)"
| "py_not (Some (JString s)) = (s = [])"
| "py_not (Some (JArray xs)) = (xs = [])"
| "py_not (Some (JObject members)) = (members = [])"

text \<open>
  The text that the query of line 270 compares a column with. A string is compared as
  it is. What the database driver does with any other value (the text it compares a
  number as, the exception it raises for a list or a dict) is the parameter
  \<open>bind_param\<close>.
\<close>

definition query_text :: "(json \<Rightarrow> exn + string) \<Rightarrow> json \<Rightarrow> exn + string" where
  "query_text bind_param v = (case v of JString s \<Rightarrow> Inr s | _ \<Rightarrow> bind_param v)"

text \<open>
  The handler from the body on. Line 264 calls \<^verbatim>\<open>data.get\<close>: when the body is no
  object (null, a list, a string, a number, a boolean), \<^verbatim>\<open>data\<close> has no such
  attribute and Python raises AttributeError, which nobody catches. For an object, line
  267 answers 400 when either value is falsy; otherwise the handler goes on from line
  270 with the two values.
\<close>

definition api_checkin_request ::
  "(json \<Rightarrow> exn + string) \<Rightarrow> datetime \<Rightarrow> world \<Rightarrow> json \<Rightarrow> world \<times> response" where
  "api_checkin_request bind_param now w body =
    (case body of
       JObject data \<Rightarrow>
         (case (dict_get data ''participant_id'', dict_get data ''event_id'') of
            (Some participant_id, Some event_id) \<Rightarrow>
              if py_not (Some participant_id) \<or> py_not (Some event_id) then
                (w, Json 400 [(''status'', JStr ''error''),
                              (''message'', JStr ''Missing participant ID or event ID'')])
              else
                (case (query_text bind_param participant_id, query_text bind_param event_id) of
                   (Inr p, Inr e) \<Rightarrow>
                     api_checkin now w [''participant_id'' \<mapsto> p, ''event_id'' \<mapsto> e]
                 | (Inl x, _) \<Rightarrow> (w, Uncaught x)
                 | (Inr p, Inl x) \<Rightarrow> (w, Uncaught x))
          | _ \<Rightarrow>
              (w, Json 400 [(''status'', JStr ''error''),
                            (''message'', JStr ''Missing participant ID or event ID'')]))
     | _ \<Rightarrow> (w, Uncaught (AttributeError ''get'')))"

text \<open>
  Check-in requests served one after the other, each with its time, each on the state
  the one before left behind; the answers in the order of the requests.
\<close>

fun serve_checkins :: "world \<Rightarrow> (datetime \<times> (string \<rightharpoonup> string)) list \<Rightarrow> world \<times> response list" where
  "serve_checkins w [] = (w, [])"
| "serve_checkins w ((now, data) # rest) =
     (case api_checkin now w data of
        (w1, r) \<Rightarrow> (case serve_checkins w1 rest of (w2, rs) \<Rightarrow> (w2, r # rs)))"

section \<open>Registration (register_for_event)\<close>

text \<open>
  \<^verbatim>\<open>url_for\<close> fills the route's pattern with the identifier. Identifiers are UUID
  strings (hexadecimal digits and hyphens), which the URL builder leaves as they are.
  With \<^verbatim>\<open>_external=True\<close> the URL starts with the scheme and host of the request,
  the argument \<open>base_url\<close>.
\<close>

definition url_for_show_participant_qr :: "string \<Rightarrow> string" where
  "url_for_show_participant_qr participant_id = ''/participant/'' @ participant_id @ ''/qr''"

definition url_for_register_for_event_external :: "string \<Rightarrow> string \<Rightarrow> string" where
  "url_for_register_for_event_external base_url event_id =
     base_url @ ''/event/'' @ event_id @ ''/register''"

definition url_for_admin_events :: string where
  "url_for_admin_events = ''/admin/events''"

text \<open>The mock mailer: one more mail on the output.\<close>

definition send_registration_email :: "string \<Rightarrow> string \<Rightarrow> string \<Rightarrow> string \<Rightarrow> world \<Rightarrow> world" where
  "send_registration_email recipient_email participant_name event_name qr_code_svg w =
     w\<lparr>sent_mail := sent_mail w @
         [\<lparr>m_recipient_email = recipient_email, m_participant_name = participant_name,
           m_event_name = event_name, m_qr_code_svg = qr_code_svg\<rparr>]\<rparr>"

datatype http_method = GET | POST

text \<open>
  The handler of \<^verbatim>\<open>/event/<event_id>/register\<close>. Its parameters beyond the request:
  \<open>generate_qr_code_svg\<close>, the QR encoder of the qrcode library, from the payload to the
  SVG text; \<open>new_uuid\<close>, the value \<^verbatim>\<open>uuid.uuid4()\<close> gives the new row; \<open>now\<close>, the
  clock. Reading a form key that is absent raises werkzeug's BadRequestKeyError, an HTTP
  400. The commit fails on the primary key when the new id is already in the table.
\<close>

definition register_for_event ::
  "(string \<Rightarrow> string) \<Rightarrow> string \<Rightarrow> datetime \<Rightarrow> world \<Rightarrow> string \<Rightarrow> http_method
     \<Rightarrow> (string \<rightharpoonup> string) \<Rightarrow> world \<times> response" where
  "register_for_event generate_qr_code_svg new_uuid now w event_id method form =
    (case get_event w event_id of
       None \<Rightarrow> (w, Abort 404)
     | Some event \<Rightarrow>
         if method = POST then
           (case (form ''name'', form ''student_id'', form ''email'') of
              (Some name, Some student_id, Some email) \<Rightarrow>
                if name = [] \<or> student_id = [] \<or> email = [] then
                  (flash ''All fields are required.'' ''danger'' w, Render ''register.html'' None)
                else
                  (case find (\<lambda>p. p_event_id p = e_id event \<and>
                                   (p_student_id p = student_id \<or> p_email p = email))
                             (participants w) of
                     Some existing_participant \<Rightarrow>
                       (flash ''You are already registered for this event.'' ''warning'' w,
                        Redirect (url_for_show_participant_qr (p_id existing_participant)))
                   | None \<Rightarrow>
                       if new_uuid \<in> p_id ` set (participants w) then
                         (w, Uncaught (IntegrityError ''participant.id''))
                       else
                         let new_participant =
                               \<lparr>p_id = new_uuid, p_event_id = e_id event, p_name = name,
                                p_student_id = student_id, p_email = email,
                                p_registration_date = now\<rparr>;
                             w1 = w\<lparr>participants := participants w @ [new_participant]\<rparr>;
                             participant_qr_data = p_id new_participant;
                             qr_svg = generate_qr_code_svg participant_qr_data;
                             w2 = send_registration_email email name (e_name event) qr_svg w1
                         in (flash ''Registration successful! Please save your QR code.''
                               ''success'' w2,
                             Redirect (url_for_show_participant_qr (p_id new_participant))))
            | _ \<Rightarrow> (w, Abort 400))
         else (w, Render ''register.html'' None))"

section \<open>QR code pages (event_qr_code, show_participant_qr)\<close>

definition event_qr_code ::
  "(string \<Rightarrow> string) \<Rightarrow> string \<Rightarrow> world \<Rightarrow> string \<Rightarrow> world \<times> response" where
  "event_qr_code generate_qr_code_svg base_url w event_id =
    (case get_event w event_id of
       None \<Rightarrow> (w, Abort 404)
     | Some event \<Rightarrow>
         let registration_url = url_for_register_for_event_external base_url (e_id event);
             qr_svg = generate_qr_code_svg registration_url
         in (w, Render ''event_qr_code.html'' (Some qr_svg)))"

definition show_participant_qr ::
  "(string \<Rightarrow> string) \<Rightarrow> world \<Rightarrow> string \<Rightarrow> world \<times> response" where
  "show_participant_qr generate_qr_code_svg w participant_id =
    (case get_participant w participant_id of
       None \<Rightarrow> (w, Abort 404)
     | Some participant \<Rightarrow>
         (case get_event w (p_event_id participant) of
            None \<Rightarrow> (w, Abort 404)
          | Some event \<Rightarrow>
              let qr_data = p_id participant;
                  qr_svg = generate_qr_code_svg qr_data
              in (w, Render ''participant_qr.html'' (Some qr_svg))))"

section \<open>Event administration (delete_event, live_attendance)\<close>

text \<open>
  \<^verbatim>\<open>db.session.delete(event)\<close> with the cascades the models declare: the event's row,
  \<^verbatim>\<open>event.participants\<close> and \<^verbatim>\<open>event.attendances\<close> (the rows whose event_id is the
  event's id), and for each of those participants \<^verbatim>\<open>participant.attendance\<close> (the rows
  whose participant_id is the participant's id), all in the one commit.
\<close>

definition delete_event :: "world \<Rightarrow> string \<Rightarrow> world \<times> response" where
  "delete_event w event_id =
    (case get_event w event_id of
       None \<Rightarrow> (w, Abort 404)
     | Some event \<Rightarrow>
         let event_participants = filter (\<lambda>p. p_event_id p = e_id event) (participants w);
             w1 = w\<lparr>events := filter (\<lambda>e. e_id e \<noteq> e_id event) (events w),
                    participants := filter (\<lambda>p. p_event_id p \<noteq> e_id event) (participants w),
                    attendances :=
                      filter (\<lambda>a. a_event_id a \<noteq> e_id event \<and>
                                   a_participant_id a \<notin> p_id ` set event_participants)
                             (attendances w)\<rparr>
         in (flash (''Event '' @ [CHR 0x22] @ e_name event @ [CHR 0x22]
                      @ '' and all its related data have been deleted.'') ''success'' w1,
             Redirect url_for_admin_events))"

definition live_attendance :: "world \<Rightarrow> string \<Rightarrow> world \<times> response" where
  "live_attendance w event_id =
    (case get_event w event_id of
       None \<Rightarrow> (w, Abort 404)
     | Some event \<Rightarrow>
         let attendance_count = count_attendances w (e_id event)
         in (w, Json 200 [(''attendance_count'', JInt attendance_count)]))"

section \<open>Constraints of the schema\<close>

text \<open>
  The primary keys of the three tables and the UNIQUE constraint on
  \<^verbatim>\<open>attendance.participant_id\<close>.
\<close>

definition db_constraints :: "world \<Rightarrow> bool" where
  "db_constraints w \<longleftrightarrow>
     distinct (map e_id (events w)) \<and> distinct (map p_id (participants w)) \<and>
     distinct (map a_id (attendances w)) \<and> distinct (map a_participant_id (attendances w))"

section \<open>Sample data\<close>

definition ev1 :: event where
  "ev1 = \<lparr>e_id = ''EV1'', e_name = ''Open Day'', e_date = 90000, e_location = ''Hall A'',
          e_description = None, e_created_at = 100\<rparr>"

definition ev2 :: event where
  "ev2 = \<lparr>e_id = ''EV2'', e_name = ''Career Fair'', e_date = 180000, e_location = ''Hall B'',
          e_description = Some ''Bring a CV'', e_created_at = 200\<rparr>"

definition alice :: participant where
  "alice = \<lparr>p_id = ''P-ALICE'', p_event_id = ''EV1'', p_name = ''Alice'',
            p_student_id = ''S100'', p_email = ''a@x.com'', p_registration_date = 300\<rparr>"

definition bob :: participant where
  "bob = \<lparr>p_id = ''P-BOB'', p_event_id = ''EV2'', p_name = ''Bob'',
          p_student_id = ''S200'', p_email = ''b@x.com'', p_registration_date = 400\<rparr>"

definition alice_attendance :: attendance where
  "alice_attendance = \<lparr>a_id = 1, a_participant_id = ''P-ALICE'', a_event_id = ''EV1'',
                       a_check_in_time = 34200\<rparr>"

text \<open>Two events with one participant each, nobody checked in.\<close>

definition registered_world :: world where
  "registered_world = \<lparr>events = [ev1, ev2], participants = [alice, bob], attendances = [],
                       sent_mail = [], flashes = []\<rparr>"

text \<open>The same with Alice checked in at 09:30.\<close>

definition checked_in_world :: world where
  "checked_in_world = registered_world\<lparr>attendances := [alice_attendance]\<rparr>"

definition checkin_request :: "string \<Rightarrow> string \<Rightarrow> (string \<rightharpoonup> string)" where
  "checkin_request participant_id event_id =
     [''participant_id'' \<mapsto> participant_id, ''event_id'' \<mapsto> event_id]"

definition registration_form :: "string \<Rightarrow> string \<Rightarrow> string \<Rightarrow> (string \<rightharpoonup> string)" where
  "registration_form name student_id email =
     [''name'' \<mapsto> name, ''student_id'' \<mapsto> student_id, ''email'' \<mapsto> email]"

definition carol :: participant where
  "carol = \<lparr>p_id = ''P-CAROL'', p_event_id = ''EV1'', p_name = ''Carol'',
            p_student_id = ''S300'', p_email = ''c@x.com'', p_registration_date = 500\<rparr>"

text \<open>Bob, Carol and Alice, in this order in the table; Carol and Alice are both of EV1.\<close>

definition three_world :: world where
  "three_world = \<lparr>events = [ev1, ev2], participants = [bob, carol, alice], attendances = [],
                  sent_mail = [], flashes = []\<rparr>"

text \<open>A driver that binds no value other than a string.\<close>

definition strings_only :: "json \<Rightarrow> exn + string" where
  "strings_only v = Inl (InterfaceError ''unsupported type'')"

section \<open>Lookups\<close>

lemma get_event_Some: "get_event w event_id = Some ev \<Longrightarrow> e_id ev = event_id \<and> ev \<in> set (events w)"
  by (auto simp: get_event_def find_Some_iff)

lemma get_event_None: "get_event w event_id = None \<longleftrightarrow> event_id \<notin> e_id ` set (events w)"
  by (auto simp: get_event_def find_None_iff)

lemma get_event_exists:
  "event_id \<in> e_id ` set (events w) \<Longrightarrow> \<exists>ev. get_event w event_id = Some ev"
  using get_event_None [of w event_id] by (cases "get_event w event_id") auto

lemma get_participant_Some:
  "get_participant w pid = Some p \<Longrightarrow> p_id p = pid \<and> p \<in> set (participants w)"
  by (auto simp: get_participant_def find_Some_iff)

lemma find_Some_set: "find P xs = Some x \<Longrightarrow> x \<in> set xs \<and> P x"
  by (auto simp: find_Some_iff)

lemma find_exists: "\<exists>x\<in>set xs. P x \<Longrightarrow> \<exists>y. find P xs = Some y"
  by (cases "find P xs") (auto simp: find_None_iff)

section \<open>The constraints of the schema are kept\<close>

text \<open>
  Every handler that writes keeps the primary keys and the UNIQUE constraint, also the
  check-in handler in a scope that binds the name it reads.
\<close>

lemma fold_max_bounds: "(a::nat) \<le> fold max xs a \<and> (\<forall>x\<in>set xs. x \<le> fold max xs a)"
proof (induction xs arbitrary: a)
  case Nil
  show ?case by simp
next
  case (Cons y ys)
  from Cons [of "max y a"] show ?case by auto
qed

lemma next_attendance_id_fresh: "next_attendance_id as \<notin> a_id ` set as"
proof
  assume "next_attendance_id as \<in> a_id ` set as"
  then have "next_attendance_id as \<in> set (map a_id as)" by simp
  with fold_max_bounds [of 0 "map a_id as"] have "next_attendance_id as \<le> fold max (map a_id as) 0"
    by blast
  then show False by (simp add: next_attendance_id_def)
qed

lemma db_constraints_api_checkin_in_scope:
  "db_constraints w \<Longrightarrow> db_constraints (fst (api_checkin_in_scope b now w data))"
  using next_attendance_id_fresh [of "attendances w"]
  by (auto simp: api_checkin_in_scope_def db_constraints_def Let_def
      split: option.splits)

lemma db_constraints_register_for_event:
  "db_constraints w \<Longrightarrow>
   db_constraints (fst (register_for_event gen new_uuid now w event_id method form))"
  by (auto simp: register_for_event_def db_constraints_def flash_def
      send_registration_email_def Let_def split: option.splits)

lemma db_constraints_delete_event:
  "db_constraints w \<Longrightarrow> db_constraints (fst (delete_event w event_id))"
  by (auto simp: delete_event_def db_constraints_def flash_def Let_def distinct_map_filter
      split: option.splits)

lemma db_constraints_sample: "db_constraints checked_in_world"
  by (simp add: db_constraints_def checked_in_world_def registered_world_def ev1_def ev2_def
      alice_def bob_def alice_attendance_def)

section \<open>Properties of check-in\<close>

lemma api_checkin_in_scope_missing:
  assumes "data ''participant_id'' = None \<or> data ''participant_id'' = Some ''''
         \<or> data ''event_id'' = None \<or> data ''event_id'' = Some ''''"
  shows "api_checkin_in_scope b now w data =
           (w, Json 400 [(''status'', JStr ''error''),
                         (''message'', JStr ''Missing participant ID or event ID'')])"
  using assms by (auto simp: api_checkin_in_scope_def Let_def)

lemma api_checkin_in_scope_not_found:
  assumes "data ''participant_id'' = Some pid" "data ''event_id'' = Some eid"
    and "pid \<noteq> []" "eid \<noteq> []"
    and "\<forall>p\<in>set (participants w). \<not> (p_id p = pid \<and> p_event_id p = eid)"
  shows "api_checkin_in_scope b now w data =
           (w, Json 404 [(''status'', JStr ''error''),
                         (''message'', JStr ''Participant not found for this event'')])"
proof -
  have "find (\<lambda>p. Some (p_id p) = Some pid \<and> Some (p_event_id p) = Some eid) (participants w) = None"
    using assms(5) by (auto simp: find_None_iff)
  with assms(1-4) show ?thesis
    by (simp add: api_checkin_in_scope_def Let_def)
qed

text \<open>
  Once the participant is found, the handler as written stops at line 276 with a
  NameError, for every stored state: no check-in is ever recorded.
\<close>

lemma api_checkin_found:
  assumes "data ''participant_id'' = Some pid" "data ''event_id'' = Some eid"
    and "pid \<noteq> []" "eid \<noteq> []"
    and "\<exists>p\<in>set (participants w). p_id p = pid \<and> p_event_id p = eid"
  shows "api_checkin now w data = (w, Uncaught (NameError ''event''))"
proof -
  from assms(5) obtain q where
    "find (\<lambda>p. Some (p_id p) = Some pid \<and> Some (p_event_id p) = Some eid) (participants w) = Some q"
    using find_exists [of "participants w" "\<lambda>p. Some (p_id p) = Some pid \<and> Some (p_event_id p) = Some eid"]
    by auto
  with assms(1-4) show ?thesis
    by (simp add: api_checkin_def api_checkin_in_scope_def Let_def)
qed

lemma api_checkin_world_unchanged: "fst (api_checkin now w data) = w"
  by (auto simp: api_checkin_def api_checkin_in_scope_def Let_def split: option.splits)

text \<open>
  In a scope where the name denotes the event of the request, lines 276 to 292 do what
  they were written for: the first scan records the attendance and answers with the
  success body, a later scan answers with the warning that carries the time of the
  first.
\<close>

lemma api_checkin_in_scope_first_scan_sample:
  "api_checkin_in_scope (Some ev1) 34200 registered_world (checkin_request ''P-ALICE'' ''EV1'') =
     (registered_world\<lparr>attendances := [alice_attendance]\<rparr>,
      Json 200 [(''status'', JStr ''success''),
                (''message'', JStr ''Checked in Alice (S100) for Open Day.''),
                (''participant_name'', JStr ''Alice''),
                (''student_id'', JStr ''S100'')])"
  by (simp add: api_checkin_in_scope_def Let_def registered_world_def checkin_request_def
      alice_def bob_def ev1_def alice_attendance_def next_attendance_id_def)

lemma strftime_HM_sample: "strftime_HM 34200 = ''09:30''"
  by (simp add: strftime_HM_def two_digits_def)

lemma api_checkin_in_scope_second_scan_sample:
  "api_checkin_in_scope (Some ev1) 36000 checked_in_world (checkin_request ''P-ALICE'' ''EV1'') =
     (checked_in_world,
      Json 200 [(''status'', JStr ''warning''),
                (''message'', JStr ''Alice (ID: S100) already checked in at 09:30.'')])"
  by (simp add: api_checkin_in_scope_def Let_def registered_world_def checked_in_world_def
      checkin_request_def alice_def bob_def ev1_def alice_attendance_def strftime_HM_sample)

text \<open>
  C1: Alice is registered to EV1 and has no Attendance record. Her first scan is
  answered with the uncaught NameError of line 276 instead of the success body, and no
  Attendance record is created.
\<close>

theorem api_checkin_first_scan_raises:
  "api_checkin 34200 registered_world (checkin_request ''P-ALICE'' ''EV1'')
     = (registered_world, Uncaught (NameError ''event''))"
  by (simp add: api_checkin_def api_checkin_in_scope_def Let_def registered_world_def
      checkin_request_def alice_def bob_def)

text \<open>
  C2: Alice already has an Attendance record for EV1, made at 09:30. A scan at 10:00 is
  answered with the same uncaught NameError instead of the warning that names her and
  the time 09:30; the stored record is left as it was.
\<close>

theorem api_checkin_second_scan_raises:
  "api_checkin 36000 checked_in_world (checkin_request ''P-ALICE'' ''EV1'')
     = (checked_in_world, Uncaught (NameError ''event''))"
  by (simp add: api_checkin_def api_checkin_in_scope_def Let_def registered_world_def
      checked_in_world_def checkin_request_def alice_def bob_def)

text \<open>
  From line 267 on: when one of the two values is absent or the empty string, the
  answer is status 400 with the fixed error body, whatever the stored state is, and the
  state is returned as it was.
\<close>

lemma api_checkin_missing_field:
  assumes "data ''participant_id'' = None \<or> data ''participant_id'' = Some ''''
         \<or> data ''event_id'' = None \<or> data ''event_id'' = Some ''''"
  shows "api_checkin now w data =
           (w, Json 400 [(''status'', JStr ''error''),
                         (''message'', JStr ''Missing participant ID or event ID'')])"
  using assms by (auto simp: api_checkin_def api_checkin_in_scope_def Let_def)

lemma api_checkin_missing_field_sample:
  "[''event_id'' \<mapsto> ''EV1''] ''participant_id'' = None \<and>
   api_checkin 34200 checked_in_world [''event_id'' \<mapsto> ''EV1''] =
     (checked_in_world, Json 400 [(''status'', JStr ''error''),
                                  (''message'', JStr ''Missing participant ID or event ID'')])"
  using api_checkin_missing_field [of "[''event_id'' \<mapsto> ''EV1'']" 34200 checked_in_world]
  by simp

text \<open>
  The same for the request as a whole when its body is an object: a value that is
  absent or falsy (null, false, 0, the empty string, list or object) is answered 400.
  A body that is no object never gets that far; the attribute lookup of line 264 fails.
\<close>

lemma api_checkin_request_not_object:
  "(\<forall>data. body \<noteq> JObject data) \<Longrightarrow>
   api_checkin_request bind_param now w body = (w, Uncaught (AttributeError ''get''))"
  by (cases body) (simp_all add: api_checkin_request_def)

lemma api_checkin_request_missing:
  "py_not (dict_get data ''participant_id'') \<or> py_not (dict_get data ''event_id'') \<Longrightarrow>
   api_checkin_request bind_param now w (JObject data) =
     (w, Json 400 [(''status'', JStr ''error''),
                   (''message'', JStr ''Missing participant ID or event ID'')])"
  by (auto simp: api_checkin_request_def split: option.splits)

lemma api_checkin_request_strings:
  "api_checkin_request bind_param now w
      (JObject [(''participant_id'', JString p), (''event_id'', JString e)])
     = api_checkin now w (checkin_request p e)"
  by (simp add: api_checkin_request_def dict_get_def query_text_def checkin_request_def
      api_checkin_def api_checkin_in_scope_def Let_def)

text \<open>
  C7: a check-in request whose body is the JSON value null carries neither
  participant_id nor event_id. It is answered with the uncaught AttributeError of line
  264 (HTTP 500) instead of the 400 of line 268; the stored state is left as it was.
\<close>

theorem api_checkin_request_null_body_raises:
  "api_checkin_request strings_only 34200 checked_in_world JNull
     = (checked_in_world, Uncaught (AttributeError ''get''))"
  by (simp add: api_checkin_request_def)

text \<open>
  C6: the table's primary key makes participant ids distinct. A participant's id scanned
  with an event id other than the participant's own (both present in the request) is
  answered 404, participant not found, and the state stays as it was.
\<close>

theorem api_checkin_cross_event:
  assumes "distinct (map p_id (participants w))"
    and "P \<in> set (participants w)"
    and "event_id \<noteq> p_event_id P"
    and "p_id P \<noteq> []" "event_id \<noteq> []"
    and "data ''participant_id'' = Some (p_id P)" "data ''event_id'' = Some event_id"
  shows "api_checkin now w data =
           (w, Json 404 [(''status'', JStr ''error''),
                         (''message'', JStr ''Participant not found for this event'')])"
proof -
  have "\<forall>p\<in>set (participants w). \<not> (p_id p = p_id P \<and> p_event_id p = event_id)"
  proof (intro ballI notI)
    fix p assume "p \<in> set (participants w)" and "p_id p = p_id P \<and> p_event_id p = event_id"
    with assms(1,2) have "p = P"
      by (auto simp: distinct_map dest: inj_onD)
    with \<open>p_id p = p_id P \<and> p_event_id p = event_id\<close> assms(3) show False by simp
  qed
  then show ?thesis
    using api_checkin_in_scope_not_found [OF assms(6) assms(7) assms(4) assms(5)]
    by (simp add: api_checkin_def)
qed

theorem api_checkin_cross_event_witness:
  "distinct (map p_id (participants checked_in_world)) \<and> alice \<in> set (participants checked_in_world)
   \<and> ''EV2'' \<noteq> p_event_id alice \<and>
   api_checkin 36000 checked_in_world (checkin_request ''P-ALICE'' ''EV2'') =
     (checked_in_world, Json 404 [(''status'', JStr ''error''),
                         (''message'', JStr ''Participant not found for this event'')])"
  using api_checkin_cross_event [of checked_in_world alice "''EV2''" "checkin_request ''P-ALICE'' ''EV2''" 36000]
  by (simp add: checked_in_world_def registered_world_def alice_def bob_def checkin_request_def)

text \<open>
  No check-in is ever answered with status 200, and no sequence of check-ins changes
  the state: every scan of a participant that is found ends in the NameError of line
  276.
\<close>

lemma api_checkin_never_success:
  "snd (api_checkin now w data) \<noteq> Json 200 body"
  by (auto simp: api_checkin_def api_checkin_in_scope_def Let_def split: option.splits)

lemma serve_checkins_world_unchanged: "fst (serve_checkins w reqs) = w"
proof (induction reqs arbitrary: w)
  case Nil
  show ?case by simp
next
  case (Cons req reqs)
  obtain now data where req: "req = (now, data)" by (cases req)
  obtain w1 r where step: "api_checkin now w data = (w1, r)" by (cases "api_checkin now w data")
  with api_checkin_world_unchanged [of now w data] have "w1 = w" by simp
  obtain w2 rs where rest: "serve_checkins w reqs = (w2, rs)" by (cases "serve_checkins w reqs")
  with Cons [of w] have "w2 = w" by simp
  with req step rest \<open>w1 = w\<close> show ?case by simp
qed

lemma serve_checkins_never_success:
  "r \<in> set (snd (serve_checkins w reqs)) \<Longrightarrow> r \<noteq> Json 200 body"
proof (induction reqs arbitrary: w)
  case Nil
  then show ?case by simp
next
  case (Cons req reqs)
  obtain now data where req: "req = (now, data)" by (cases req)
  obtain w1 r1 where step: "api_checkin now w data = (w1, r1)" by (cases "api_checkin now w data")
  obtain w2 rs where rest: "serve_checkins w1 reqs = (w2, rs)" by (cases "serve_checkins w1 reqs")
  from Cons.prems req step rest have "r = r1 \<or> r \<in> set rs" by simp
  then show ?case
  proof
    assume "r = r1"
    with api_checkin_never_success [of now w data body] step show ?thesis by simp
  next
    assume "r \<in> set rs"
    with Cons.IH [of w1] rest show ?thesis by simp
  qed
qed

lemma serve_checkins_found:
  assumes "data ''participant_id'' = Some pid" "data ''event_id'' = Some eid"
    and "pid \<noteq> []" "eid \<noteq> []"
    and "\<exists>p\<in>set (participants w). p_id p = pid \<and> p_event_id p = eid"
  shows "serve_checkins w (map (\<lambda>now. (now, data)) ts) =
           (w, replicate (length ts) (Uncaught (NameError ''event'')))"
proof (induction ts)
  case Nil
  show ?case by simp
next
  case (Cons now ts)
  from assms have "api_checkin now w data = (w, Uncaught (NameError ''event''))"
    by (rule api_checkin_found)
  with Cons show ?case by simp
qed

text \<open>
  C3: Alice is registered to EV1 and has no Attendance record. Of three scans of her
  code, served one after the other, none is answered with the success body and none
  with the duplicate warning: each ends in the uncaught NameError of line 276, and no
  Attendance record exists afterwards.
\<close>

theorem serve_checkins_three_scans_raise:
  "serve_checkins registered_world
     [(34200, checkin_request ''P-ALICE'' ''EV1''),
      (34201, checkin_request ''P-ALICE'' ''EV1''),
      (34202, checkin_request ''P-ALICE'' ''EV1'')]
   = (registered_world,
      [Uncaught (NameError ''event''), Uncaught (NameError ''event''),
       Uncaught (NameError ''event'')])"
proof -
  have scan: "api_checkin now registered_world (checkin_request ''P-ALICE'' ''EV1'')
                = (registered_world, Uncaught (NameError ''event''))" for now
    by (simp add: api_checkin_def api_checkin_in_scope_def Let_def registered_world_def
        checkin_request_def alice_def bob_def)
  show ?thesis by (simp add: scan)
qed

section \<open>Properties of registration\<close>

lemma register_for_event_existing:
  assumes ev: "get_event w event_id = Some ev"
    and form: "form ''name'' = Some name" "form ''student_id'' = Some student_id"
      "form ''email'' = Some email"
    and filled: "name \<noteq> []" "student_id \<noteq> []" "email \<noteq> []"
    and found: "find (\<lambda>p. p_event_id p = e_id ev \<and> (p_student_id p = student_id \<or> p_email p = email))
                  (participants w) = Some existing"
  shows "register_for_event gen new_uuid now w event_id POST form =
           (flash ''You are already registered for this event.'' ''warning'' w,
            Redirect (url_for_show_participant_qr (p_id existing)))"
  using assms by (simp add: register_for_event_def)

lemma register_for_event_cases:
  "register_for_event gen new_uuid now w event_id method form = (w', r) \<Longrightarrow>
   sent_mail w' = sent_mail w \<and> participants w' = participants w \<or>
   (\<exists>ev name student_id email.
      get_event w event_id = Some ev \<and> method = POST \<and>
      form ''name'' = Some name \<and> form ''student_id'' = Some student_id \<and>
      form ''email'' = Some email \<and> name \<noteq> [] \<and> student_id \<noteq> [] \<and> email \<noteq> [] \<and>
      find (\<lambda>p. p_event_id p = e_id ev \<and> (p_student_id p = student_id \<or> p_email p = email))
           (participants w) = None \<and>
      new_uuid \<notin> p_id ` set (participants w) \<and>
      participants w' = participants w @
        [\<lparr>p_id = new_uuid, p_event_id = e_id ev, p_name = name, p_student_id = student_id,
          p_email = email, p_registration_date = now\<rparr>] \<and>
      sent_mail w' = sent_mail w @
        [\<lparr>m_recipient_email = email, m_participant_name = name, m_event_name = e_name ev,
          m_qr_code_svg = gen new_uuid\<rparr>] \<and>
      r = Redirect (url_for_show_participant_qr new_uuid))"
  by (auto simp: register_for_event_def flash_def send_registration_email_def Let_def
      split: option.splits if_splits)

text \<open>
  The non-empty check of line 212 comes before the lookup of line 217: a form with an
  empty name is answered with the form itself, also when its student id and email are
  those of a registered participant.
\<close>

lemma register_for_event_empty_name_sample:
  "alice \<in> set (participants registered_world) \<and> p_event_id alice = ''EV1'' \<and>
   p_student_id alice = ''S100'' \<and> p_email alice = ''a@x.com'' \<and>
   register_for_event id ''P-NEW'' 500 registered_world ''EV1'' POST
       (registration_form '''' ''S100'' ''a@x.com'')
     = (flash ''All fields are required.'' ''danger'' registered_world,
        Render ''register.html'' None)"
  by (simp add: register_for_event_def get_event_def registered_world_def ev1_def ev2_def
      alice_def bob_def registration_form_def flash_def)

lemma find_first_match:
  "\<forall>x\<in>set before. \<not> P x \<Longrightarrow> P y \<Longrightarrow> find P (before @ y # after) = Some y"
  by (induction before) simp_all

text \<open>
  C4: for an existing event and a registration (a POST whose three fields are filled
  in), when a participant of the event has the same student id or the same email, the
  first such participant in table order is the one the answer redirects to, on its QR
  page; the warning that the person is already registered is flashed, nothing else of
  the state changes, and the participant table is as it was.
\<close>

theorem register_existing_participant:
  assumes "event_id \<in> e_id ` set (events w)"
    and "form ''name'' = Some name" "form ''student_id'' = Some student_id"
      "form ''email'' = Some email"
    and "name \<noteq> []" "student_id \<noteq> []" "email \<noteq> []"
    and "participants w = before @ existing # after"
    and "\<forall>p\<in>set before.
           \<not> (p_event_id p = event_id \<and> (p_student_id p = student_id \<or> p_email p = email))"
    and "p_event_id existing = event_id \<and>
         (p_student_id existing = student_id \<or> p_email existing = email)"
  shows "register_for_event gen new_uuid now w event_id POST form =
           (w\<lparr>flashes := flashes w @
                 [(''You are already registered for this event.'', ''warning'')]\<rparr>,
            Redirect (''/participant/'' @ p_id existing @ ''/qr'')) \<and>
         participants (fst (register_for_event gen new_uuid now w event_id POST form))
           = participants w"
proof -
  from assms(1) obtain ev where ev: "get_event w event_id = Some ev"
    using get_event_exists by blast
  then have id: "e_id ev = event_id" by (simp add: get_event_Some)
  let ?match = "\<lambda>p. p_event_id p = e_id ev \<and> (p_student_id p = student_id \<or> p_email p = email)"
  have "find ?match (before @ existing # after) = Some existing"
    using assms(9,10) id by (intro find_first_match) simp_all
  then have found: "find ?match (participants w) = Some existing"
    by (simp add: assms(8))
  have "register_for_event gen new_uuid now w event_id POST form =
           (flash ''You are already registered for this event.'' ''warning'' w,
            Redirect (url_for_show_participant_qr (p_id existing)))"
    using ev assms(2-7) found by (rule register_for_event_existing)
  then show ?thesis
    by (simp add: flash_def url_for_show_participant_qr_def)
qed

theorem register_existing_participant_witness:
  "''EV1'' \<in> e_id ` set (events three_world) \<and>
   participants three_world = [bob] @ carol # [alice] \<and>
   register_for_event id ''P-NEW'' 600 three_world ''EV1'' POST
       (registration_form ''Carol A'' ''S100'' ''c@x.com'')
     = (three_world\<lparr>flashes := [(''You are already registered for this event.'', ''warning'')]\<rparr>,
        Redirect ''/participant/P-CAROL/qr'') \<and>
   participants (fst (register_for_event id ''P-NEW'' 600 three_world ''EV1'' POST
       (registration_form ''Carol A'' ''S100'' ''c@x.com''))) = [bob, carol, alice]"
  using register_existing_participant [of "''EV1''" three_world
      "registration_form ''Carol A'' ''S100'' ''c@x.com''" "''Carol A''" "''S100''"
      "''c@x.com''" "[bob]" carol "[alice]" id "''P-NEW''" 600]
  by (simp add: three_world_def ev1_def ev2_def alice_def bob_def carol_def registration_form_def)

text \<open>
  C9: whenever a participant of the event has the student id or the email of the form,
  the request sends no mail, whatever else it carries. Mail is sent only by a request
  that has appended the new participant to the table, and it is that participant's mail.
\<close>

theorem register_for_event_notification:
  assumes "register_for_event gen new_uuid now w event_id method form = (w', r)"
  shows
   "((\<exists>p\<in>set (participants w). p_event_id p = event_id \<and>
        (form ''student_id'' = Some (p_student_id p) \<or> form ''email'' = Some (p_email p)))
      \<longrightarrow> sent_mail w' = sent_mail w) \<and>
    (sent_mail w' \<noteq> sent_mail w
      \<longrightarrow> (\<exists>p ev. ev \<in> set (events w) \<and> e_id ev = event_id \<and>
               participants w' = participants w @ [p] \<and>
               p_id p = new_uuid \<and> p_event_id p = event_id \<and>
               sent_mail w' = sent_mail w @ [\<lparr>m_recipient_email = p_email p,
                                               m_participant_name = p_name p,
                                               m_event_name = e_name ev,
                                               m_qr_code_svg = gen (p_id p)\<rparr>]))"
proof -
  note cases = register_for_event_cases [OF assms]
  have first: "sent_mail w' = sent_mail w"
    if "\<exists>p\<in>set (participants w). p_event_id p = event_id \<and>
        (form ''student_id'' = Some (p_student_id p) \<or> form ''email'' = Some (p_email p))"
  proof (rule ccontr)
    assume "sent_mail w' \<noteq> sent_mail w"
    with cases obtain ev student_id email where
      ev: "get_event w event_id = Some ev" and
      f: "form ''student_id'' = Some student_id" "form ''email'' = Some email" and
      none: "find (\<lambda>p. p_event_id p = e_id ev \<and> (p_student_id p = student_id \<or> p_email p = email))
           (participants w) = None"
      by auto
    from ev have "e_id ev = event_id" by (simp add: get_event_Some)
    with none f that show False by (auto simp: find_None_iff)
  qed
  have second: "\<exists>p ev. ev \<in> set (events w) \<and> e_id ev = event_id \<and>
      participants w' = participants w @ [p] \<and> p_id p = new_uuid \<and>
      p_event_id p = event_id \<and>
      sent_mail w' = sent_mail w @ [\<lparr>m_recipient_email = p_email p,
                                     m_participant_name = p_name p,
                                     m_event_name = e_name ev,
                                     m_qr_code_svg = gen (p_id p)\<rparr>]"
    if "sent_mail w' \<noteq> sent_mail w"
  proof -
    from cases that obtain ev name student_id email where
      ev: "get_event w event_id = Some ev" and
      p: "participants w' = participants w @
        [\<lparr>p_id = new_uuid, p_event_id = e_id ev, p_name = name, p_student_id = student_id,
          p_email = email, p_registration_date = now\<rparr>]" and
      m: "sent_mail w' = sent_mail w @
        [\<lparr>m_recipient_email = email, m_participant_name = name, m_event_name = e_name ev,
          m_qr_code_svg = gen new_uuid\<rparr>]"
      by auto
    from ev have "e_id ev = event_id" "ev \<in> set (events w)" by (simp_all add: get_event_Some)
    with p m show ?thesis by (intro exI [of _ "\<lparr>p_id = new_uuid, p_event_id = e_id ev, p_name = name,
        p_student_id = student_id, p_email = email, p_registration_date = now\<rparr>"] exI [of _ ev]) simp
  qed
  from first second show ?thesis by blast
qed

theorem register_for_event_notification_witness:
  "alice \<in> set (participants registered_world) \<and> p_event_id alice = ''EV1'' \<and>
   registration_form ''Al'' ''S100'' ''new@x.com'' ''student_id'' = Some (p_student_id alice) \<and>
   sent_mail (fst (register_for_event id ''P-NEW'' 500 registered_world ''EV1'' POST
                     (registration_form ''Al'' ''S100'' ''new@x.com'')))
     = sent_mail registered_world"
proof -
  let ?form = "registration_form ''Al'' ''S100'' ''new@x.com''"
  let ?res = "register_for_event id ''P-NEW'' 500 registered_world ''EV1'' POST ?form"
  have pair: "?res = (fst ?res, snd ?res)" by simp
  have a: "alice \<in> set (participants registered_world)" "p_event_id alice = ''EV1''"
    "?form ''student_id'' = Some (p_student_id alice)"
    by (simp_all add: registered_world_def alice_def registration_form_def)
  then have "\<exists>p\<in>set (participants registered_world). p_event_id p = ''EV1'' \<and>
        (?form ''student_id'' = Some (p_student_id p) \<or> ?form ''email'' = Some (p_email p))"
    by (intro bexI [of _ alice]) simp_all
  with register_for_event_notification [OF pair, THEN conjunct1]
  have "sent_mail (fst ?res) = sent_mail registered_world" by (rule mp)
  with a show ?thesis by (intro conjI)
qed

section \<open>Properties of the QR codes\<close>

text \<open>
  C8: what each handler gives the QR encoder. The event's QR page encodes the base URL
  followed by /event/<event_id>/register; a participant's QR page encodes the
  participant's id alone; and the code mailed after a registration that added a
  participant encodes that participant's new id alone.
\<close>

theorem qr_code_payloads:
  "(event_id \<in> e_id ` set (events w) \<longrightarrow>
      event_qr_code gen base_url w event_id =
        (w, Render ''event_qr_code.html''
              (Some (gen (base_url @ ''/event/'' @ event_id @ ''/register''))))) \<and>
   (get_participant w participant_id = Some P \<and> p_event_id P \<in> e_id ` set (events w) \<longrightarrow>
      show_participant_qr gen w participant_id =
        (w, Render ''participant_qr.html'' (Some (gen participant_id)))) \<and>
   (register_for_event gen new_uuid now w event_id method form = (w', r) \<and>
    participants w' \<noteq> participants w \<longrightarrow>
      (\<exists>p m. participants w' = participants w @ [p] \<and> p_id p = new_uuid \<and>
             sent_mail w' = sent_mail w @ [m] \<and> m_qr_code_svg m = gen (p_id p) \<and>
             r = Redirect (''/participant/'' @ p_id p @ ''/qr'')))"
proof (intro conjI impI)
  assume "event_id \<in> e_id ` set (events w)"
  then obtain ev where ev: "get_event w event_id = Some ev"
    using get_event_exists by blast
  then have "e_id ev = event_id" by (simp add: get_event_Some)
  with ev show "event_qr_code gen base_url w event_id =
        (w, Render ''event_qr_code.html''
              (Some (gen (base_url @ ''/event/'' @ event_id @ ''/register''))))"
    by (simp add: event_qr_code_def url_for_register_for_event_external_def)
next
  assume a: "get_participant w participant_id = Some P \<and> p_event_id P \<in> e_id ` set (events w)"
  then have P: "get_participant w participant_id = Some P" ..
  then have "p_id P = participant_id" by (simp add: get_participant_Some)
  moreover from a obtain ev where "get_event w (p_event_id P) = Some ev"
    using get_event_exists by blast
  ultimately show "show_participant_qr gen w participant_id =
        (w, Render ''participant_qr.html'' (Some (gen participant_id)))"
    using P by (simp add: show_participant_qr_def)
next
  assume a: "register_for_event gen new_uuid now w event_id method form = (w', r) \<and>
    participants w' \<noteq> participants w"
  then have "register_for_event gen new_uuid now w event_id method form = (w', r)" ..
  from register_for_event_cases [OF this] a
  show "\<exists>p m. participants w' = participants w @ [p] \<and> p_id p = new_uuid \<and>
             sent_mail w' = sent_mail w @ [m] \<and> m_qr_code_svg m = gen (p_id p) \<and>
             r = Redirect (''/participant/'' @ p_id p @ ''/qr'')"
    by (auto simp: url_for_show_participant_qr_def)
qed

theorem qr_code_payloads_witness:
  "''EV1'' \<in> e_id ` set (events registered_world) \<and>
   event_qr_code id ''http://host'' registered_world ''EV1'' =
     (registered_world, Render ''event_qr_code.html'' (Some ''http://host/event/EV1/register'')) \<and>
   get_participant registered_world ''P-BOB'' = Some bob \<and>
   show_participant_qr id registered_world ''P-BOB'' =
     (registered_world, Render ''participant_qr.html'' (Some ''P-BOB'')) \<and>
   m_qr_code_svg (last (sent_mail (fst (register_for_event id ''P-CAROL'' 500 registered_world
       ''EV1'' POST (registration_form ''Carol'' ''S300'' ''c@x.com'')))))
     = ''P-CAROL''"
proof -
  let ?form = "registration_form ''Carol'' ''S300'' ''c@x.com''"
  let ?res = "register_for_event id ''P-CAROL'' 500 registered_world ''EV1'' POST ?form"
  note payloads = qr_code_payloads [of "''EV1''" registered_world id "''http://host''" "''P-BOB''" bob
      "''P-CAROL''" 500 POST ?form "fst ?res" "snd ?res"]
  have ex: "''EV1'' \<in> e_id ` set (events registered_world)"
    by (simp add: registered_world_def ev1_def)
  have bob: "get_participant registered_world ''P-BOB'' = Some bob"
    by (simp add: get_participant_def registered_world_def alice_def bob_def)
  have bob_ev: "p_event_id bob \<in> e_id ` set (events registered_world)"
    by (simp add: registered_world_def bob_def ev2_def)
  have res: "?res =
    (registered_world\<lparr>participants := [alice, bob,
         \<lparr>p_id = ''P-CAROL'', p_event_id = ''EV1'', p_name = ''Carol'', p_student_id = ''S300'',
          p_email = ''c@x.com'', p_registration_date = 500\<rparr>],
       sent_mail := [\<lparr>m_recipient_email = ''c@x.com'', m_participant_name = ''Carol'',
         m_event_name = ''Open Day'', m_qr_code_svg = ''P-CAROL''\<rparr>],
       flashes := [(''Registration successful! Please save your QR code.'', ''success'')]\<rparr>,
     Redirect ''/participant/P-CAROL/qr'')"
    by (simp add: register_for_event_def get_event_def registered_world_def ev1_def ev2_def
        alice_def bob_def registration_form_def flash_def send_registration_email_def
        url_for_show_participant_qr_def Let_def)
  from payloads ex have 1: "event_qr_code id ''http://host'' registered_world ''EV1'' =
     (registered_world, Render ''event_qr_code.html'' (Some ''http://host/event/EV1/register''))"
    by simp
  from payloads bob bob_ev have 2: "show_participant_qr id registered_world ''P-BOB'' =
     (registered_world, Render ''participant_qr.html'' (Some ''P-BOB''))"
    by simp
  have "participants (fst ?res) \<noteq> participants registered_world"
    unfolding res by (simp add: registered_world_def)
  with payloads have "\<exists>p m. participants (fst ?res) = participants registered_world @ [p] \<and>
      p_id p = ''P-CAROL'' \<and> sent_mail (fst ?res) = sent_mail registered_world @ [m] \<and>
      m_qr_code_svg m = id (p_id p) \<and> snd ?res = Redirect (''/participant/'' @ p_id p @ ''/qr'')"
    by simp
  then have 3: "m_qr_code_svg (last (sent_mail (fst ?res))) = ''P-CAROL''"
    by auto
  from ex 1 bob 2 3 show ?thesis by (intro conjI)
qed

section \<open>Properties of event administration\<close>

lemma delete_event_missing:
  "event_id \<notin> e_id ` set (events w) \<Longrightarrow> delete_event w event_id = (w, Abort 404)"
  by (simp add: delete_event_def get_event_None [symmetric])

lemma delete_event_existing:
  assumes "event_id \<in> e_id ` set (events w)"
  shows "\<exists>ev\<in>set (events w). e_id ev = event_id \<and>
     delete_event w event_id =
       (w\<lparr>events := filter (\<lambda>e. e_id e \<noteq> event_id) (events w),
          participants := filter (\<lambda>p. p_event_id p \<noteq> event_id) (participants w),
          attendances := filter (\<lambda>a. a_event_id a \<noteq> event_id \<and>
               a_participant_id a \<notin> p_id ` {p \<in> set (participants w). p_event_id p = event_id})
             (attendances w),
          flashes := flashes w @ [(''Event '' @ [CHR 0x22] @ e_name ev @ [CHR 0x22]
                      @ '' and all its related data have been deleted.'', ''success'')]\<rparr>,
        Redirect ''/admin/events'')"
proof -
  from assms obtain ev where ev: "get_event w event_id = Some ev"
    using get_event_exists by blast
  then have "e_id ev = event_id" "ev \<in> set (events w)" by (simp_all add: get_event_Some)
  with ev show ?thesis
    by (intro bexI [of _ ev]) (simp_all add: delete_event_def flash_def url_for_admin_events_def Let_def)
qed

text \<open>
  C5: deleting an existing event gives, in the one state change of the commit, a state
  without the event, without any participant of it and without any attendance that
  refers to it or to one of its participants. Afterwards the event is not found, and a
  check-in of a former participant is answered 404: for the deleted event's id always,
  and for every other event id as well when participant ids are distinct. The ids in
  the request are present, so non-empty.
\<close>

theorem delete_event_cascade:
  assumes "event_id \<in> e_id ` set (events w)"
    and "delete_event w event_id = (w', r)"
  shows "r = Redirect ''/admin/events'' \<and>
    event_id \<notin> e_id ` set (events w') \<and>
    get_event w' event_id = None \<and>
    (\<forall>p\<in>set (participants w'). p_event_id p \<noteq> event_id) \<and>
    (\<forall>a\<in>set (attendances w'). a_event_id a \<noteq> event_id) \<and>
    (\<forall>a\<in>set (attendances w'). \<forall>p\<in>set (participants w).
        p_event_id p = event_id \<longrightarrow> a_participant_id a \<noteq> p_id p) \<and>
    (\<forall>p\<in>set (participants w). p_event_id p = event_id \<and> p_id p \<noteq> [] \<and> event_id \<noteq> [] \<longrightarrow>
        api_checkin now w' [''participant_id'' \<mapsto> p_id p, ''event_id'' \<mapsto> event_id] =
          (w', Json 404 [(''status'', JStr ''error''),
                         (''message'', JStr ''Participant not found for this event'')])) \<and>
    (distinct (map p_id (participants w)) \<longrightarrow>
       (\<forall>p\<in>set (participants w). \<forall>scanned_at.
          p_event_id p = event_id \<and> p_id p \<noteq> [] \<and> scanned_at \<noteq> [] \<longrightarrow>
          api_checkin now w' [''participant_id'' \<mapsto> p_id p, ''event_id'' \<mapsto> scanned_at] =
            (w', Json 404 [(''status'', JStr ''error''),
                           (''message'', JStr ''Participant not found for this event'')])))"
proof -
  from delete_event_existing [OF assms(1)] obtain ev where
    "ev \<in> set (events w)" "e_id ev = event_id" and del: "delete_event w event_id =
       (w\<lparr>events := filter (\<lambda>e. e_id e \<noteq> event_id) (events w),
          participants := filter (\<lambda>p. p_event_id p \<noteq> event_id) (participants w),
          attendances := filter (\<lambda>a. a_event_id a \<noteq> event_id \<and>
               a_participant_id a \<notin> p_id ` {p \<in> set (participants w). p_event_id p = event_id})
             (attendances w),
          flashes := flashes w @ [(''Event '' @ [CHR 0x22] @ e_name ev @ [CHR 0x22]
                      @ '' and all its related data have been deleted.'', ''success'')]\<rparr>,
        Redirect ''/admin/events'')"
    by (elim bexE conjE) (rule that)
  from del assms(2) have
    w': "w' = w\<lparr>events := filter (\<lambda>e. e_id e \<noteq> event_id) (events w),
          participants := filter (\<lambda>p. p_event_id p \<noteq> event_id) (participants w),
          attendances := filter (\<lambda>a. a_event_id a \<noteq> event_id \<and>
               a_participant_id a \<notin> p_id ` {p \<in> set (participants w). p_event_id p = event_id})
             (attendances w),
          flashes := flashes w @ [(''Event '' @ [CHR 0x22] @ e_name ev @ [CHR 0x22]
                      @ '' and all its related data have been deleted.'', ''success'')]\<rparr>"
    and r: "r = Redirect ''/admin/events''"
    by simp_all
  have ev_gone: "event_id \<notin> e_id ` set (events w')" by (auto simp: w')
  then have get: "get_event w' event_id = None" by (simp add: get_event_None)
  have ps: "\<forall>p\<in>set (participants w'). p_event_id p \<noteq> event_id" by (simp add: w')
  have as1: "\<forall>a\<in>set (attendances w'). a_event_id a \<noteq> event_id" by (simp add: w')
  have as2: "\<forall>a\<in>set (attendances w'). \<forall>p\<in>set (participants w).
        p_event_id p = event_id \<longrightarrow> a_participant_id a \<noteq> p_id p"
    by (auto simp: w')
  have scan: "api_checkin now w' [''participant_id'' \<mapsto> p_id p, ''event_id'' \<mapsto> event_id] =
          (w', Json 404 [(''status'', JStr ''error''),
                         (''message'', JStr ''Participant not found for this event'')])"
    if "p_id p \<noteq> []" "event_id \<noteq> []" for p
    unfolding api_checkin_def
    by (rule api_checkin_in_scope_not_found [where pid = "p_id p" and eid = event_id])
       (use that ps in auto)
  have scan_any: "api_checkin now w' [''participant_id'' \<mapsto> p_id p, ''event_id'' \<mapsto> scanned_at] =
            (w', Json 404 [(''status'', JStr ''error''),
                           (''message'', JStr ''Participant not found for this event'')])"
    if d: "distinct (map p_id (participants w))" and p: "p \<in> set (participants w)"
      "p_event_id p = event_id" "p_id p \<noteq> []" "scanned_at \<noteq> []" for p scanned_at
  proof -
    have "\<forall>q\<in>set (participants w'). p_id q \<noteq> p_id p"
    proof
      fix q assume "q \<in> set (participants w')"
      then have q: "q \<in> set (participants w)" "p_event_id q \<noteq> event_id" by (auto simp: w')
      show "p_id q \<noteq> p_id p"
      proof
        assume "p_id q = p_id p"
        with d q(1) p(1) have "q = p" by (auto simp: distinct_map dest: inj_onD)
        with q(2) p(2) show False by simp
      qed
    qed
    then show ?thesis
      unfolding api_checkin_def
      by (intro api_checkin_in_scope_not_found [where pid = "p_id p" and eid = scanned_at])
         (use p in auto)
  qed
  show ?thesis
    using r ev_gone get ps as1 as2 scan scan_any by blast
qed

theorem delete_event_cascade_witness:
  "''EV1'' \<in> e_id ` set (events checked_in_world) \<and>
   delete_event checked_in_world ''EV1'' =
     (\<lparr>events = [ev2], participants = [bob], attendances = [], sent_mail = [],
       flashes = [(''Event '' @ [CHR 0x22] @ ''Open Day'' @ [CHR 0x22]
                    @ '' and all its related data have been deleted.'', ''success'')]\<rparr>,
      Redirect ''/admin/events'') \<and>
   get_event (fst (delete_event checked_in_world ''EV1'')) ''EV1'' = None \<and>
   api_checkin 36000 (fst (delete_event checked_in_world ''EV1''))
       [''participant_id'' \<mapsto> ''P-ALICE'', ''event_id'' \<mapsto> ''EV1'']
     = (fst (delete_event checked_in_world ''EV1''),
        Json 404 [(''status'', JStr ''error''),
                  (''message'', JStr ''Participant not found for this event'')])"
proof -
  let ?w1 = "fst (delete_event checked_in_world ''EV1'')"
  have ex: "''EV1'' \<in> e_id ` set (events checked_in_world)"
    by (simp add: checked_in_world_def registered_world_def ev1_def)
  have del: "delete_event checked_in_world ''EV1'' =
     (\<lparr>events = [ev2], participants = [bob], attendances = [], sent_mail = [],
       flashes = [(''Event '' @ [CHR 0x22] @ ''Open Day'' @ [CHR 0x22]
                    @ '' and all its related data have been deleted.'', ''success'')]\<rparr>,
      Redirect ''/admin/events'')"
    by (simp add: delete_event_def get_event_def checked_in_world_def registered_world_def
        ev1_def ev2_def alice_def bob_def alice_attendance_def flash_def url_for_admin_events_def)
  have pair: "delete_event checked_in_world ''EV1'' = (?w1, snd (delete_event checked_in_world ''EV1''))"
    by simp
  note cascade = delete_event_cascade [OF ex pair, of 36000]
  from cascade have gone: "get_event ?w1 ''EV1'' = None"
    by (elim conjE)
  from cascade have scans:
    "\<forall>p\<in>set (participants checked_in_world).
        p_event_id p = ''EV1'' \<and> p_id p \<noteq> [] \<and> ''EV1'' \<noteq> [] \<longrightarrow>
        api_checkin 36000 ?w1 [''participant_id'' \<mapsto> p_id p, ''event_id'' \<mapsto> ''EV1''] =
          (?w1, Json 404 [(''status'', JStr ''error''),
                         (''message'', JStr ''Participant not found for this event'')])"
    by (elim conjE)
  have "alice \<in> set (participants checked_in_world)"
    by (simp add: checked_in_world_def registered_world_def)
  from bspec [OF scans this] have
    "api_checkin 36000 ?w1 [''participant_id'' \<mapsto> ''P-ALICE'', ''event_id'' \<mapsto> ''EV1''] =
          (?w1, Json 404 [(''status'', JStr ''error''),
                         (''message'', JStr ''Participant not found for this event'')])"
    by (simp add: alice_def)
  with ex del gone show ?thesis by (intro conjI)
qed

text \<open>
  C10: for an event id without an event the count request is answered 404; for an
  existing event it is answered with the number of attendance rows whose event id is
  that id, read from the state at the call.
\<close>

theorem live_attendance_count:
  "(event_id \<notin> e_id ` set (events w) \<longrightarrow> live_attendance w event_id = (w, Abort 404)) \<and>
   (event_id \<in> e_id ` set (events w) \<longrightarrow>
      live_attendance w event_id =
        (w, Json 200 [(''attendance_count'',
               JInt (length (filter (\<lambda>a. a_event_id a = event_id) (attendances w))))]))"
proof (intro conjI impI)
  assume "event_id \<notin> e_id ` set (events w)"
  then have "get_event w event_id = None" by (simp add: get_event_None)
  then show "live_attendance w event_id = (w, Abort 404)"
    by (simp add: live_attendance_def)
next
  assume "event_id \<in> e_id ` set (events w)"
  then obtain ev where ev: "get_event w event_id = Some ev"
    using get_event_exists by blast
  then have "e_id ev = event_id" by (simp add: get_event_Some)
  with ev show "live_attendance w event_id =
        (w, Json 200 [(''attendance_count'',
               JInt (length (filter (\<lambda>a. a_event_id a = event_id) (attendances w))))])"
    by (simp add: live_attendance_def count_attendances_def)
qed

theorem live_attendance_count_witness:
  "''EV3'' \<notin> e_id ` set (events checked_in_world) \<and>
   live_attendance checked_in_world ''EV3'' = (checked_in_world, Abort 404) \<and>
   ''EV1'' \<in> e_id ` set (events checked_in_world) \<and>
   live_attendance checked_in_world ''EV1'' = (checked_in_world, Json 200 [(''attendance_count'', JInt 1)])"
  using live_attendance_count [of "''EV3''" checked_in_world]
        live_attendance_count [of "''EV1''" checked_in_world]
  by (simp add: checked_in_world_def registered_world_def ev1_def ev2_def alice_attendance_def)

end
